theory Spec2Isabelle
  imports Complex_Main
begin

section \<open>Numbers and strings of the host language\<close>

text \<open>
  A TypeScript \<open>number\<close> is an IEEE double. The model separates the kinds of double the
  handlers distinguish: a finite value, the two infinities, and NaN. The overflow to an
  infinity and the underflow to zero are modelled (\<open>js_round\<close>); between the two a
  finite value is carried as the real number it was computed from, so the rounding of
  the last bit is not modelled, and neither is the sign of zero.
\<close>

datatype jsnum = Fin real | PosInf | NegInf | NaN

definition isNaN :: "jsnum \<Rightarrow> bool" where
  "isNaN v = (v = NaN)"

definition isFinite :: "jsnum \<Rightarrow> bool" where
  "isFinite v = (case v of Fin _ \<Rightarrow> True | _ \<Rightarrow> False)"

text \<open>The largest finite double is \<open>2^1024 - 2^971\<close>; a value at or beyond the midpoint
  to \<open>2^1024\<close> rounds to an infinity. The smallest positive double is \<open>2^-1074\<close>; a
  value of at most half of it rounds to zero.\<close>

definition js_overflow :: real where
  "js_overflow = 2 ^ 1024 - 2 ^ 970"

definition js_underflow :: real where
  "js_underflow = 1 / 2 ^ 1075"

definition js_round :: "real \<Rightarrow> jsnum" where
  "js_round v = (if js_overflow \<le> v then PosInf
                 else if v \<le> - js_overflow then NegInf
                 else if \<bar>v\<bar> \<le> js_underflow then Fin 0
                 else Fin v)"

text \<open>The product of two numbers (\<open>a * b\<close>).\<close>

fun js_times :: "jsnum \<Rightarrow> jsnum \<Rightarrow> jsnum" where
  "js_times NaN _ = NaN"
| "js_times _ NaN = NaN"
| "js_times (Fin a) (Fin b) = js_round (a * b)"
| "js_times (Fin a) PosInf = (if a = 0 then NaN else if 0 < a then PosInf else NegInf)"
| "js_times (Fin a) NegInf = (if a = 0 then NaN else if 0 < a then NegInf else PosInf)"
| "js_times PosInf (Fin b) = (if b = 0 then NaN else if 0 < b then PosInf else NegInf)"
| "js_times NegInf (Fin b) = (if b = 0 then NaN else if 0 < b then NegInf else PosInf)"
| "js_times PosInf PosInf = PosInf"
| "js_times PosInf NegInf = NegInf"
| "js_times NegInf PosInf = NegInf"
| "js_times NegInf NegInf = PosInf"

text \<open>
  A string of the host language is a sequence of UTF-16 code units, and its length
  counts them. A code unit is a natural number here (below 65536 in every string of the
  program). \<open>js\<close> writes a string of ASCII characters, \<open>cu\<close> one such character.
\<close>

type_synonym jsstring = "nat list"

abbreviation cu :: "char \<Rightarrow> nat" where
  "cu c \<equiv> of_char c"

abbreviation js :: "string \<Rightarrow> jsstring" where
  "js s \<equiv> map of_char s"

text \<open>
  White space is what \<open>trim\<close>, the regular expression \<open>\s\<close> and \<open>parseFloat\<close> accept:
  tab, line feed, vertical tab, form feed, carriage return, space, no-break space
  (U+00A0), U+1680, U+2000 to U+200A, the line and paragraph separators (U+2028,
  U+2029), U+202F, U+205F, U+3000 and the byte order mark (U+FEFF).
\<close>

definition is_ws :: "nat \<Rightarrow> bool" where
  "is_ws c =
     (c \<in> {0x09, 0x0A, 0x0B, 0x0C, 0x0D, 0x20, 0xA0, 0x1680, 0x2028, 0x2029, 0x202F, 0x205F,
            0x3000, 0xFEFF}
      \<or> (0x2000 \<le> c \<and> c \<le> 0x200A))"

definition trim :: "jsstring \<Rightarrow> jsstring" where
  "trim s = rev (dropWhile is_ws (rev (dropWhile is_ws s)))"

text \<open>
  \<open>toLowerCase\<close>. On a string of ASCII characters it turns \<open>A\<close> to \<open>Z\<close> into \<open>a\<close> to
  \<open>z\<close> and nothing else. On any other string it applies the case mapping of the
  Unicode standard, which is not part of the program and can change the length of the
  string: that mapping is the argument \<open>unicodeLower\<close> of the model.
\<close>

definition lower_ascii :: "nat \<Rightarrow> nat" where
  "lower_ascii c = (if 65 \<le> c \<and> c \<le> 90 then c + 32 else c)"

definition toLowerCase :: "(jsstring \<Rightarrow> jsstring) \<Rightarrow> jsstring \<Rightarrow> jsstring" where
  "toLowerCase unicodeLower s =
     (if list_all (\<lambda>c. c < 128) s then map lower_ascii s else unicodeLower s)"

text \<open>\<open>s.substring(a, b)\<close>: both indices are clamped to the length and swapped when
  \<open>a > b\<close>.\<close>

definition substring :: "jsstring \<Rightarrow> nat \<Rightarrow> nat \<Rightarrow> jsstring" where
  "substring s a b = (let lo = min (min a b) (length s); hi = min (max a b) (length s)
                      in take (hi - lo) (drop lo s))"

text \<open>\<open>s.split(',')\<close> and \<open>s.split(/\s+/)\<close>. Neither returns an empty list: the empty
  string splits into one empty string. In the second, the flag says that the previous
  character was white space, so that a run of white space is one separator.\<close>

fun splitComma :: "jsstring \<Rightarrow> jsstring list" where
  "splitComma [] = [[]]"
| "splitComma (c # cs) =
     (if c = cu (CHR '','') then [] # splitComma cs
      else (case splitComma cs of t # ts \<Rightarrow> (c # t) # ts | [] \<Rightarrow> [[c]]))"

fun splitSpacesFrom :: "bool \<Rightarrow> jsstring \<Rightarrow> jsstring list" where
  "splitSpacesFrom sep [] = [[]]"
| "splitSpacesFrom sep (c # cs) =
     (if is_ws c then (if sep then splitSpacesFrom True cs else [] # splitSpacesFrom True cs)
      else (case splitSpacesFrom False cs of t # ts \<Rightarrow> (c # t) # ts | [] \<Rightarrow> [[c]]))"

definition splitSpaces :: "jsstring \<Rightarrow> jsstring list" where
  "splitSpaces s = splitSpacesFrom False s"

text \<open>
  The builtin \<open>parseFloat\<close>, after its definition in the language standard: leading
  white space is skipped, and the longest prefix that is a decimal literal (an optional
  sign, then \<open>Infinity\<close>, or digits with an optional fraction and an optional
  exponent) gives the value; without such a prefix the result is NaN. The digits are
  the ASCII digits.
\<close>

definition is_digit :: "nat \<Rightarrow> bool" where
  "is_digit c = (48 \<le> c \<and> c \<le> 57)"

definition digit_val :: "nat \<Rightarrow> nat" where
  "digit_val c = c - 48"

definition digits_val :: "jsstring \<Rightarrow> nat" where
  "digits_val ds = foldl (\<lambda>a c. 10 * a + digit_val c) 0 ds"

text \<open>The value of the exponent part at the head of a string; 0 when there is none (an
  \<open>e\<close> that no digit follows is not part of the literal).\<close>

definition exponent_part :: "jsstring \<Rightarrow> int" where
  "exponent_part r =
     (case r of [] \<Rightarrow> 0
      | e # r1 \<Rightarrow>
          if e = cu (CHR ''e'') \<or> e = cu (CHR ''E'') then
            (case r1 of [] \<Rightarrow> 0
             | s # r2 \<Rightarrow>
                 if s = cu (CHR ''-'') then - int (digits_val (takeWhile is_digit r2))
                 else if s = cu (CHR ''+'') then int (digits_val (takeWhile is_digit r2))
                 else int (digits_val (takeWhile is_digit r1)))
          else 0)"

definition scale10 :: "real \<Rightarrow> int \<Rightarrow> real" where
  "scale10 m e = (if 0 \<le> e then m * 10 ^ nat e else m / 10 ^ nat (- e))"

definition unsigned_literal :: "jsstring \<Rightarrow> jsnum option" where
  "unsigned_literal u =
     (if take 8 u = js ''Infinity'' then Some PosInf
      else
        (let ip = takeWhile is_digit u;
             r1 = dropWhile is_digit u;
             hasDot = (r1 \<noteq> [] \<and> hd r1 = cu (CHR ''.''));
             fp = (if hasDot then takeWhile is_digit (tl r1) else []);
             r2 = (if hasDot then dropWhile is_digit (tl r1) else r1)
         in if ip = [] \<and> fp = [] then None
            else Some (js_round (scale10 (real (digits_val (ip @ fp)))
                                         (exponent_part r2 - int (length fp))))))"

definition js_negate :: "jsnum \<Rightarrow> jsnum" where
  "js_negate v = (case v of Fin x \<Rightarrow> Fin (- x) | PosInf \<Rightarrow> NegInf | NegInf \<Rightarrow> PosInf | NaN \<Rightarrow> NaN)"

definition parseFloat :: "jsstring \<Rightarrow> jsnum" where
  "parseFloat s =
     (let t = dropWhile is_ws s
      in case t of [] \<Rightarrow> NaN
         | c # r \<Rightarrow>
             if c = cu (CHR ''-'') then (case unsigned_literal r of None \<Rightarrow> NaN | Some v \<Rightarrow> js_negate v)
             else if c = cu (CHR ''+'') then (case unsigned_literal r of None \<Rightarrow> NaN | Some v \<Rightarrow> v)
             else (case unsigned_literal t of None \<Rightarrow> NaN | Some v \<Rightarrow> v))"

text \<open>The decimal digits of a natural number, for a template string such as
  \<open>`Dossier ${index + 1}`\<close>.\<close>

fun showNat :: "nat \<Rightarrow> jsstring" where
  "showNat n = (if n < 10 then [48 + n] else showNat (n div 10) @ [48 + n mod 10])"

section \<open>The data model (types.ts)\<close>

datatype ToolMode = SELECT | DRAW_POLYGON | DRAW_LINE

record GeoPoint =
  lat :: jsnum
  lng :: jsnum

datatype ShapeType = polygon | polyline

record Shape =
  shape_id :: jsstring
  shape_name :: jsstring
  shape_type :: ShapeType
  points :: "GeoPoint list"
  layerId :: jsstring
  measuredValue :: jsnum

datatype LayerType = surface | length_type | mixed

datatype Category = measurement | kml

text \<open>
  The colour of a layer is a string, except for one case of the import: the style table
  is a plain object, and looking up a style reference that is the name of a member of
  \<open>Object.prototype\<close> (such as \<open>constructor\<close>) returns that member, which then
  becomes the colour.
\<close>

datatype ColorValue = ColorString jsstring | PrototypeMember jsstring

record Layer =
  layer_id :: jsstring
  layer_name :: jsstring
  color :: ColorValue
  layer_type :: LayerType
  category :: Category
  isVisible :: bool
  opacity :: jsnum

section \<open>The drawing manager (capture of a point sequence)\<close>

text \<open>
  The drawing manager holds the list of points clicked so far; the tool mode is given
  to it by the application. \<open>handleTryFinish\<close> returns the point sequence handed to
  \<open>onFinish\<close> (if any) and the new list of points.
\<close>

definition handleTryFinish :: "ToolMode \<Rightarrow> GeoPoint list \<Rightarrow> GeoPoint list option \<times> GeoPoint list" where
  "handleTryFinish mode currentPoints =
     (if mode = DRAW_POLYGON \<and> 3 \<le> length currentPoints then (Some currentPoints, [])
      else if mode = DRAW_LINE \<and> 2 \<le> length currentPoints then (Some currentPoints, [])
      else (None, currentPoints))"

text \<open>A click on the map appends a point, unless the tool is the selection tool.\<close>

definition click :: "ToolMode \<Rightarrow> GeoPoint list \<Rightarrow> GeoPoint \<Rightarrow> GeoPoint list" where
  "click mode pts p = (if mode = SELECT then pts else pts @ [p])"

text \<open>A right click finishes, unless the tool is the selection tool.\<close>

definition contextmenu :: "ToolMode \<Rightarrow> GeoPoint list \<Rightarrow> GeoPoint list option \<times> GeoPoint list" where
  "contextmenu mode pts = (if mode = SELECT then (None, pts) else handleTryFinish mode pts)"

text \<open>The Escape key drops the points (and the application clears the selection).\<close>

definition escape :: "ToolMode \<Rightarrow> GeoPoint list \<Rightarrow> GeoPoint list" where
  "escape mode pts = (if mode = SELECT then pts else [])"

section \<open>The application state and the layer store (App.tsx)\<close>

text \<open>
  The project state of the \<open>App\<close> component: the layers in display order, the shapes,
  the active layer, the selected shape, the tool mode and the map centre. A state setter
  of the component is a record update; a handler is a function from the state to the
  next state. Identifiers come from \<open>generateId\<close>, which draws a random value: the
  value drawn is an argument of the handler that calls it. A confirmation dialog is the
  boolean the user answers.
\<close>

record AppState =
  layers :: "Layer list"
  shapes :: "Shape list"
  activeLayerId :: "jsstring option"
  selectedShapeId :: "jsstring option"
  toolMode :: ToolMode
  mapCenter :: "GeoPoint option"

definition initialState :: AppState where
  "initialState =
     \<lparr>layers = [\<lparr>layer_id = js ''1'', layer_name = js ''Murs'', color = ColorString (js ''#ef4444''),
                  layer_type = surface, category = measurement, isVisible = True,
                  opacity = Fin 0.5\<rparr>],
      shapes = [], activeLayerId = Some (js ''1''), selectedShapeId = None,
      toolMode = SELECT, mapCenter = None\<rparr>"

definition drawMode :: "LayerType \<Rightarrow> ToolMode" where
  "drawMode t = (if t = surface then DRAW_POLYGON else DRAW_LINE)"

definition handleAddLayer :: "AppState \<Rightarrow> jsstring \<Rightarrow> LayerType \<Rightarrow> jsstring \<Rightarrow> jsstring \<Rightarrow> AppState" where
  "handleAddLayer st name t col newId =
     (let newLayer = \<lparr>layer_id = newId, layer_name = name, color = ColorString col, layer_type = t,
                       category = measurement, isVisible = True,
                       opacity = (if t = surface then Fin 0.5 else Fin 1.0)\<rparr>
      in st\<lparr>layers := layers st @ [newLayer], activeLayerId := Some newId,
             toolMode := drawMode t, selectedShapeId := None\<rparr>)"

definition handleDeleteLayer :: "AppState \<Rightarrow> jsstring \<Rightarrow> bool \<Rightarrow> AppState" where
  "handleDeleteLayer st i confirmed =
     (if confirmed then
        st\<lparr>layers := filter (\<lambda>l. layer_id l \<noteq> i) (layers st),
           shapes := filter (\<lambda>s. layerId s \<noteq> i) (shapes st),
           activeLayerId := (if activeLayerId st = Some i then None else activeLayerId st)\<rparr>
      else st)"

definition handleToggleVisibility :: "AppState \<Rightarrow> jsstring \<Rightarrow> AppState" where
  "handleToggleVisibility st i =
     st\<lparr>layers := map (\<lambda>l. if layer_id l = i then l\<lparr>isVisible := \<not> isVisible l\<rparr> else l) (layers st)\<rparr>"

definition handleUpdateOpacity :: "AppState \<Rightarrow> jsstring \<Rightarrow> jsnum \<Rightarrow> AppState" where
  "handleUpdateOpacity st i v =
     st\<lparr>layers := map (\<lambda>l. if layer_id l = i then l\<lparr>opacity := v\<rparr> else l) (layers st)\<rparr>"

definition handleSetActiveLayer :: "AppState \<Rightarrow> jsstring \<Rightarrow> AppState" where
  "handleSetActiveLayer st i =
     (case find (\<lambda>l. layer_id l = i) (layers st) of
        None \<Rightarrow> st\<lparr>activeLayerId := Some i\<rparr>
      | Some layer \<Rightarrow> st\<lparr>activeLayerId := Some i, toolMode := drawMode (layer_type layer),
                         selectedShapeId := None\<rparr>)"

definition handleAddShape :: "AppState \<Rightarrow> Shape \<Rightarrow> AppState" where
  "handleAddShape st shape = st\<lparr>shapes := shapes st @ [shape]\<rparr>"

definition handleDeleteShape :: "AppState \<Rightarrow> jsstring \<Rightarrow> bool \<Rightarrow> AppState" where
  "handleDeleteShape st i confirmed =
     (if confirmed then
        st\<lparr>shapes := filter (\<lambda>s. shape_id s \<noteq> i) (shapes st),
           selectedShapeId := (if selectedShapeId st = Some i then None else selectedShapeId st)\<rparr>
      else st)"

definition handleSelectShape :: "AppState \<Rightarrow> jsstring option \<Rightarrow> AppState" where
  "handleSelectShape st i = st\<lparr>selectedShapeId := i\<rparr>"

text \<open>\<open>handleUrlSubmit\<close>: the argument is the point read from the link by the regular
  expression, \<open>None\<close> when the link does not match (an alert, no change).\<close>

definition handleUrlSubmit :: "AppState \<Rightarrow> GeoPoint option \<Rightarrow> AppState" where
  "handleUrlSubmit st matched =
     (case matched of None \<Rightarrow> st | Some p \<Rightarrow> st\<lparr>mapCenter := Some p\<rparr>)"

text \<open>The three tool buttons of the header: the selection tool keeps the selection, the two
  drawing tools clear it.\<close>

definition toolButton :: "AppState \<Rightarrow> ToolMode \<Rightarrow> AppState" where
  "toolButton st m =
     (if m = SELECT then st\<lparr>toolMode := SELECT\<rparr>
      else st\<lparr>toolMode := m, selectedShapeId := None\<rparr>)"

text \<open>The clamp of the specification, \<open>min(1, max(0, v))\<close>, for comparison with
  \<open>handleUpdateOpacity\<close>.\<close>

definition clamp01 :: "jsnum \<Rightarrow> jsnum" where
  "clamp01 v = (case v of Fin x \<Rightarrow> Fin (min 1 (max 0 x)) | PosInf \<Rightarrow> Fin 1
                | NegInf \<Rightarrow> Fin 0 | NaN \<Rightarrow> NaN)"

section \<open>Measuring and converting shapes\<close>

text \<open>
  The geometry library (turf) is outside the repository. Its two uses are arguments of
  the model: \<open>polygon_area ring\<close> is \<open>turf.area(turf.polygon([ring]))\<close> and
  \<open>line_length path\<close> is \<open>turf.length(turf.lineString(path), {units: 'kilometers'})\<close>,
  both on a list of positions \<open>(lng, lat)\<close>; \<open>None\<close> is a thrown exception.
\<close>

record Turf =
  polygon_area :: "(jsnum \<times> jsnum) list \<Rightarrow> jsnum option"
  line_length :: "(jsnum \<times> jsnum) list \<Rightarrow> jsnum option"

definition position :: "GeoPoint \<Rightarrow> jsnum \<times> jsnum" where
  "position p = (lng p, lat p)"

text \<open>The value a conversion computes inside its \<open>try\<close> block; an exception leaves the
  initial 0.\<close>

definition convertMeasure :: "Turf \<Rightarrow> ShapeType \<Rightarrow> GeoPoint list \<Rightarrow> jsnum" where
  "convertMeasure turf newType pts =
     (if newType = polygon then
        (let ring = (if 0 < length pts then pts @ [pts ! 0] else []);
             turfPoints = map position ring
         in if 4 \<le> length turfPoints
            then (case polygon_area turf turfPoints of None \<Rightarrow> Fin 0 | Some a \<Rightarrow> a)
            else Fin 0)
      else
        (let turfPoints = map position pts
         in if 2 \<le> length turfPoints
            then (case line_length turf turfPoints of None \<Rightarrow> Fin 0
                  | Some km \<Rightarrow> js_times km (Fin 1000))
            else Fin 0))"

datatype ConvertOutcome = NoShape | InvalidTarget | Declined | Converted

definition targetLayer :: "AppState \<Rightarrow> Layer option" where
  "targetLayer st =
     (case activeLayerId st of None \<Rightarrow> None
      | Some a \<Rightarrow> find (\<lambda>l. layer_id l = a) (layers st))"

definition coerceType :: "LayerType \<Rightarrow> ShapeType \<Rightarrow> ShapeType" where
  "coerceType t old =
     (let newType = (if t = surface then polygon else old)
      in if t = length_type then polyline else newType)"

definition convertedShape :: "Turf \<Rightarrow> Shape \<Rightarrow> Layer \<Rightarrow> jsstring \<Rightarrow> Shape" where
  "convertedShape turf shape target newId =
     (let newType = coerceType (layer_type target) (shape_type shape)
      in shape\<lparr>shape_id := newId, layerId := layer_id target, shape_type := newType,
               measuredValue := convertMeasure turf newType (points shape),
               shape_name := (if shape_name shape = js ''Sans nom''
                              then (js ''Import '') @ layer_name target else shape_name shape)\<rparr>)"

text \<open>
  \<open>handleConvertShape\<close>: the target is the active layer. \<open>InvalidTarget\<close> is the alert
  asking for a measurement layer, \<open>NoShape\<close> the silent return when no shape has the
  id, \<open>Declined\<close> the user's refusal in the confirmation dialog.
\<close>

definition handleConvertShape :: "Turf \<Rightarrow> AppState \<Rightarrow> jsstring \<Rightarrow> bool \<Rightarrow> jsstring \<Rightarrow> ConvertOutcome \<times> AppState" where
  "handleConvertShape turf st shapeId confirmed newId =
     (case find (\<lambda>s. shape_id s = shapeId) (shapes st) of
        None \<Rightarrow> (NoShape, st)
      | Some shape \<Rightarrow>
          (case targetLayer st of
             None \<Rightarrow> (InvalidTarget, st)
           | Some target \<Rightarrow>
               if category target \<noteq> measurement then (InvalidTarget, st)
               else if confirmed then
                 (Converted,
                  st\<lparr>shapes := filter (\<lambda>s. shape_id s \<noteq> shapeId) (shapes st)
                                  @ [convertedShape turf shape target newId],
                     selectedShapeId := Some newId\<rparr>)
               else (Declined, st)))"

text \<open>
  \<open>handleShapeComplete\<close> (the map canvas, on a finished capture). The closing of the
  ring reads \<open>points[0]\<close>; on an empty list that is \<open>undefined\<close> and the next line
  throws, which the \<open>catch\<close> turns into 0 like any exception of the library.
\<close>

definition completeMeasure :: "Turf \<Rightarrow> Layer \<Rightarrow> GeoPoint list \<Rightarrow> jsnum" where
  "completeMeasure turf activeLayer pts =
     (let computed =
            (if layer_type activeLayer = surface then
               (case pts of [] \<Rightarrow> None
                | p0 # _ \<Rightarrow> polygon_area turf (map position (pts @ [p0])))
             else
               (case line_length turf (map position pts) of None \<Rightarrow> None
                | Some km \<Rightarrow> Some (js_times km (Fin 1000))));
          measured = (case computed of None \<Rightarrow> Fin 0 | Some v \<Rightarrow> v)
      in if isNaN measured then Fin 0 else measured)"

datatype CompleteOutcome = NoActiveLayer | PromptCancelled | ShapeAdded

text \<open>The name is what the prompt returns: \<open>None\<close> when the user cancels it.\<close>

definition handleShapeComplete :: "Turf \<Rightarrow> AppState \<Rightarrow> GeoPoint list \<Rightarrow> jsstring option \<Rightarrow> jsstring \<Rightarrow> CompleteOutcome \<times> AppState" where
  "handleShapeComplete turf st pts prompted newId =
     (case targetLayer st of
        None \<Rightarrow> (NoActiveLayer, st)
      | Some activeLayer \<Rightarrow>
          (let measured = completeMeasure turf activeLayer pts;
               defaultName = (if layer_type activeLayer = surface then (js ''Surface'') else (js ''Longueur''))
           in case prompted of
                None \<Rightarrow> (PromptCancelled, st)
              | Some name \<Rightarrow>
                  (ShapeAdded,
                   handleAddShape st
                     \<lparr>shape_id = newId,
                      shape_name = (if name = [] then defaultName else name),
                      shape_type = (if layer_type activeLayer = surface then polygon else polyline),
                      points = pts, layerId = layer_id activeLayer,
                      measuredValue = measured\<rparr>)))"

text \<open>A geometry library whose two functions return the same number on every input: the
  sample library of the concrete evaluations below.\<close>

definition constTurf :: "jsnum \<Rightarrow> Turf" where
  "constTurf v = \<lparr>polygon_area = (\<lambda>ring. Some v), line_length = (\<lambda>path. Some v)\<rparr>"

text \<open>A geometry library whose results depend on every coordinate it is given and on
  their order: a weighted sum of the positions.\<close>

fun coordSum :: "(jsnum \<times> jsnum) list \<Rightarrow> real" where
  "coordSum [] = 0"
| "coordSum ((Fin x, Fin y) # ps) = x + 1000 * y + 2 * coordSum ps"
| "coordSum (p # ps) = 2 * coordSum ps"

definition probeTurf :: Turf where
  "probeTurf = \<lparr>polygon_area = (\<lambda>ring. Some (Fin (coordSum ring))),
                 line_length = (\<lambda>path. Some (Fin (coordSum path)))\<rparr>"

text \<open>A sample project: two measurement layers, one imported layer holding an unnamed
  triangle, which is selected.\<close>

definition sampleTriangle :: "GeoPoint list" where
  "sampleTriangle = [\<lparr>lat = Fin 48.85, lng = Fin 2.35\<rparr>, \<lparr>lat = Fin 48.85, lng = Fin 2.36\<rparr>,
                     \<lparr>lat = Fin 48.86, lng = Fin 2.36\<rparr>]"

definition sampleShape :: Shape where
  "sampleShape = \<lparr>shape_id = js ''s1'', shape_name = js ''Sans nom'', shape_type = polyline,
                   points = sampleTriangle, layerId = js ''k1'', measuredValue = Fin 0\<rparr>"

definition sampleState :: AppState where
  "sampleState =
     \<lparr>layers = [\<lparr>layer_id = js ''1'', layer_name = js ''Murs'', color = ColorString (js ''#ef4444''),
                  layer_type = surface, category = measurement, isVisible = True,
                  opacity = Fin 0.5\<rparr>,
                 \<lparr>layer_id = js ''2'', layer_name = js ''Cloture'', color = ColorString (js ''#3b82f6''),
                  layer_type = length_type, category = measurement, isVisible = True,
                  opacity = Fin 1\<rparr>,
                 \<lparr>layer_id = js ''k1'', layer_name = js ''Dossier 1'', color = ColorString (js ''#9ca3af''),
                  layer_type = mixed, category = kml, isVisible = True,
                  opacity = Fin 0.6\<rparr>],
      shapes = [sampleShape], activeLayerId = Some (js ''1''), selectedShapeId = Some (js ''s1''),
      toolMode = SELECT, mapCenter = None\<rparr>"

section \<open>The import of a KML document\<close>

text \<open>\<open>kmlColorToHex\<close>: the argument is \<open>None\<close> for \<open>null\<close> or \<open>undefined\<close>; the empty
  string is falsy as well. The lengths are those of the trimmed and lower-cased string.\<close>

definition kmlColorToHex :: "(jsstring \<Rightarrow> jsstring) \<Rightarrow> jsstring option \<Rightarrow> jsstring" where
  "kmlColorToHex unicodeLower kmlColor =
     (case kmlColor of None \<Rightarrow> (js ''#9ca3af'')
      | Some c \<Rightarrow>
          if c = [] then (js ''#9ca3af'')
          else
            (let clean = toLowerCase unicodeLower (trim c)
             in if length clean = 8
                then (js ''#'') @ substring clean 6 8 @ substring clean 4 6 @ substring clean 2 4
                else if length clean = 6
                then (js ''#'') @ substring clean 4 6 @ substring clean 2 4 @ substring clean 0 2
                else (js ''#9ca3af'')))"

text \<open>
  The parsed document. \<open>DOMParser\<close> is the browser's: the model takes its result. A
  node is an element (tag name, attributes, child nodes) or a text node.
\<close>

datatype xml = Element jsstring "(jsstring \<times> jsstring) list" "xml list" | Text jsstring

fun tagName :: "xml \<Rightarrow> jsstring" where
  "tagName (Element t as cs) = t"
| "tagName (Text s) = []"

fun childNodes :: "xml \<Rightarrow> xml list" where
  "childNodes (Element t as cs) = cs"
| "childNodes (Text s) = []"

fun getAttribute :: "xml \<Rightarrow> jsstring \<Rightarrow> jsstring option" where
  "getAttribute (Element t as cs) a = map_of as a"
| "getAttribute (Text s) a = None"

text \<open>An element and the elements below it, in document order.\<close>

fun elements :: "xml \<Rightarrow> xml list" where
  "elements (Text s) = []"
| "elements (Element t as cs) = Element t as cs # concat (map elements cs)"

fun textContent :: "xml \<Rightarrow> jsstring" where
  "textContent (Text s) = s"
| "textContent (Element t as cs) = concat (map textContent cs)"

text \<open>\<open>e.getElementsByTagName(tag)\<close>: the elements below \<open>e\<close> with that tag name. On the
  document the search includes the document element itself.\<close>

definition getElementsByTagName :: "xml \<Rightarrow> jsstring \<Rightarrow> xml list" where
  "getElementsByTagName e tag = filter (\<lambda>x. tagName x = tag) (concat (map elements (childNodes e)))"

definition docElementsByTagName :: "xml \<Rightarrow> jsstring \<Rightarrow> xml list" where
  "docElementsByTagName documentElement tag =
     filter (\<lambda>x. tagName x = tag) (elements documentElement)"

text \<open>\<open>e.getElementsByTagName(tag)[0]?.textContent\<close>\<close>

definition firstText :: "xml \<Rightarrow> jsstring \<Rightarrow> jsstring option" where
  "firstText e tag = (case getElementsByTagName e tag of [] \<Rightarrow> None | x # _ \<Rightarrow> Some (textContent x))"

definition truthy :: "jsstring option \<Rightarrow> bool" where
  "truthy v = (case v of None \<Rightarrow> False | Some s \<Rightarrow> s \<noteq> [])"

definition PRESET_COLORS :: "jsstring list" where
  "PRESET_COLORS = [js ''#ef4444'', js ''#3b82f6'', js ''#22c55e'', js ''#eab308'', js ''#a855f7'', js ''#ec4899'',
                    (js ''#f97316''), js ''#06b6d4'']"

text \<open>The style table: a map from \<open>#id\<close> to a colour, filled in document order (a later
  style of the same id overwrites an earlier one).\<close>

definition styleColor :: "xml \<Rightarrow> jsstring \<Rightarrow> jsstring option" where
  "styleColor style kind =
     (case getElementsByTagName style kind of [] \<Rightarrow> None | k # _ \<Rightarrow> firstText k (js ''color''))"

definition addStyle :: "(jsstring \<Rightarrow> jsstring) \<Rightarrow> (jsstring \<rightharpoonup> jsstring) \<Rightarrow> xml
    \<Rightarrow> (jsstring \<rightharpoonup> jsstring)" where
  "addStyle unicodeLower styleMap style =
     (case getAttribute style (js ''id'') of None \<Rightarrow> styleMap
      | Some i \<Rightarrow>
          if i = [] then styleMap
          else
            (let polyColor = styleColor style (js ''PolyStyle'');
                 lineColor = styleColor style (js ''LineStyle'')
             in if truthy polyColor then styleMap((js ''#'') @ i \<mapsto> kmlColorToHex unicodeLower polyColor)
                else if truthy lineColor then styleMap((js ''#'') @ i \<mapsto> kmlColorToHex unicodeLower lineColor)
                else styleMap))"

definition parseStyles :: "(jsstring \<Rightarrow> jsstring) \<Rightarrow> xml \<Rightarrow> (jsstring \<rightharpoonup> jsstring)" where
  "parseStyles unicodeLower xmlDoc =
     foldl (addStyle unicodeLower) Map.empty (docElementsByTagName xmlDoc (js ''Style''))"

text \<open>
  The look-up \<open>styleMap[key]\<close>. The table is a plain object: a key it does not hold
  itself is looked up in \<open>Object.prototype\<close>, whose members are all truthy. The keys
  the table holds itself start with \<open>#\<close>, so they never hide such a member.
\<close>

definition objectPrototypeKeys :: "jsstring list" where
  "objectPrototypeKeys =
     [js ''constructor'', js ''__defineGetter__'', js ''__defineSetter__'', js ''hasOwnProperty'',
      js ''__lookupGetter__'', js ''__lookupSetter__'', js ''isPrototypeOf'',
      js ''propertyIsEnumerable'', js ''toString'', js ''valueOf'', js ''__proto__'',
      js ''toLocaleString'']"

definition styleLookup :: "(jsstring \<rightharpoonup> jsstring) \<Rightarrow> jsstring \<Rightarrow> ColorValue option" where
  "styleLookup styleMap key =
     (case styleMap key of
        Some c \<Rightarrow> Some (ColorString c)
      | None \<Rightarrow> if key \<in> set objectPrototypeKeys then Some (PrototypeMember key) else None)"

text \<open>\<open>parseCoords\<close>: a pair with fewer than two parts is \<open>null\<close>; the filter keeps the
  points whose two numbers are not NaN. \<open>the\<close> is only applied to what the filter kept.\<close>

definition parsePair :: "jsstring \<Rightarrow> GeoPoint option" where
  "parsePair pair =
     (let parts = splitComma pair
      in if 2 \<le> length parts
         then Some \<lparr>lat = parseFloat (parts ! 1), lng = parseFloat (parts ! 0)\<rparr>
         else None)"

definition keepPoint :: "GeoPoint option \<Rightarrow> bool" where
  "keepPoint p = (case p of None \<Rightarrow> False | Some q \<Rightarrow> \<not> isNaN (lat q) \<and> \<not> isNaN (lng q))"

definition parsePairs :: "jsstring list \<Rightarrow> GeoPoint list" where
  "parsePairs pairs = map the (filter keepPoint (map parsePair pairs))"

definition parseCoords :: "jsstring \<Rightarrow> GeoPoint list" where
  "parseCoords coordStr = parsePairs (splitSpaces (trim coordStr))"

text \<open>The criterion of the filter in words: the pair has at least two parts and neither of
  its first two parts parses to NaN; and the point such a pair gives.\<close>

definition pairYieldsNumbers :: "jsstring \<Rightarrow> bool" where
  "pairYieldsNumbers pair =
     (2 \<le> length (splitComma pair) \<and> parseFloat (splitComma pair ! 0) \<noteq> NaN
      \<and> parseFloat (splitComma pair ! 1) \<noteq> NaN)"

definition pairPoint :: "jsstring \<Rightarrow> GeoPoint" where
  "pairPoint pair = \<lparr>lat = parseFloat (splitComma pair ! 1), lng = parseFloat (splitComma pair ! 0)\<rparr>"

text \<open>The coordinates below a geometry element: none when the element or its text is
  missing.\<close>

definition coordinatesOf :: "xml \<Rightarrow> GeoPoint list" where
  "coordinatesOf geometry =
     (case firstText geometry (js ''coordinates'') of None \<Rightarrow> []
      | Some coords \<Rightarrow> if coords = [] then [] else parseCoords coords)"

text \<open>The kind and the points of a placemark: a polygon when it holds a \<open>Polygon\<close>
  element, else a line when it holds a \<open>LineString\<close>; with neither, no points.\<close>

definition placemarkGeometry :: "xml \<Rightarrow> ShapeType \<times> GeoPoint list" where
  "placemarkGeometry placemark =
     (case getElementsByTagName placemark (js ''Polygon'') of
        p # _ \<Rightarrow> (polygon, coordinatesOf p)
      | [] \<Rightarrow>
          (case getElementsByTagName placemark (js ''LineString'') of
             l # _ \<Rightarrow> (polyline, coordinatesOf l)
           | [] \<Rightarrow> (polygon, [])))"

text \<open>\<open>processPlacemark\<close>: \<open>newId\<close> is the id \<open>generateId\<close> returns; it is drawn only
  when a shape is made. (The colour argument of the source is not used.)\<close>

definition processPlacemark :: "xml \<Rightarrow> jsstring \<Rightarrow> jsstring \<Rightarrow> Shape option" where
  "processPlacemark placemark lid newId =
     (let name = (case firstText placemark (js ''name'') of None \<Rightarrow> (js ''Sans nom'')
                  | Some n \<Rightarrow> if n = [] then (js ''Sans nom'') else n);
          geometry = placemarkGeometry placemark
      in if 0 < length (snd geometry)
         then Some \<lparr>shape_id = newId, shape_name = name, shape_type = fst geometry,
                    points = snd geometry, layerId = lid, measuredValue = Fin 0\<rparr>
         else None)"

text \<open>The identifiers of one import: \<open>gen n\<close> is the result of the \<open>n\<close>-th call of
  \<open>generateId\<close>, and the loops pass the number of calls made so far.\<close>

fun processPlacemarks :: "(nat \<Rightarrow> jsstring) \<Rightarrow> jsstring \<Rightarrow> xml list \<Rightarrow> nat \<Rightarrow> Shape list \<times> nat" where
  "processPlacemarks gen lid [] n = ([], n)"
| "processPlacemarks gen lid (pm # pms) n =
     (case processPlacemark pm lid (gen n) of
        None \<Rightarrow> processPlacemarks gen lid pms n
      | Some shape \<Rightarrow>
          (let r = processPlacemarks gen lid pms (Suc n) in (shape # fst r, snd r)))"

definition folderLayer :: "(jsstring \<rightharpoonup> jsstring) \<Rightarrow> xml \<Rightarrow> nat \<Rightarrow> jsstring \<Rightarrow> Layer" where
  "folderLayer styleMap folder index lid =
     (let folderName = (case firstText folder (js ''name'') of
                          None \<Rightarrow> js ''Dossier '' @ showNat (index + 1)
                        | Some n \<Rightarrow> if n = [] then js ''Dossier '' @ showNat (index + 1) else n);
          placemarks = getElementsByTagName folder (js ''Placemark'');
          preset = ColorString (PRESET_COLORS ! (index mod length PRESET_COLORS));
          layerColor =
            (case placemarks of [] \<Rightarrow> preset
             | pm # _ \<Rightarrow>
                 (case firstText pm (js ''styleUrl'') of None \<Rightarrow> preset
                  | Some styleUrl \<Rightarrow>
                      if styleUrl = [] then preset
                      else (case styleLookup styleMap styleUrl of
                              None \<Rightarrow> preset
                            | Some (ColorString c) \<Rightarrow> if c = [] then preset else ColorString c
                            | Some (PrototypeMember k) \<Rightarrow> PrototypeMember k)))
      in \<lparr>layer_id = lid, layer_name = folderName, color = layerColor, layer_type = mixed,
          category = kml, isVisible = True, opacity = Fin 0.6\<rparr>)"

fun processFolders :: "(nat \<Rightarrow> jsstring) \<Rightarrow> (jsstring \<rightharpoonup> jsstring) \<Rightarrow> xml list \<Rightarrow> nat \<Rightarrow> nat
    \<Rightarrow> Layer list \<times> Shape list" where
  "processFolders gen styleMap [] index n = ([], [])"
| "processFolders gen styleMap (folder # rest) index n =
     (let lid = gen n;
          here = processPlacemarks gen lid (getElementsByTagName folder (js ''Placemark'')) (Suc n);
          others = processFolders gen styleMap rest (Suc index) (snd here)
      in (folderLayer styleMap folder index lid # fst others, fst here @ snd others))"

text \<open>What the import collects from a document: \<open>newLayers\<close> and \<open>newShapes\<close>.\<close>

definition kmlCollect :: "(jsstring \<Rightarrow> jsstring) \<Rightarrow> (nat \<Rightarrow> jsstring) \<Rightarrow> jsstring \<Rightarrow> xml
    \<Rightarrow> Layer list \<times> Shape list" where
  "kmlCollect unicodeLower gen fileName xmlDoc =
     (let styleMap = parseStyles unicodeLower xmlDoc;
          folders = docElementsByTagName xmlDoc (js ''Folder'')
      in if 0 < length folders then processFolders gen styleMap folders 0 0
         else
           (let placemarks = docElementsByTagName xmlDoc (js ''Placemark'')
            in if 0 < length placemarks
               then ([\<lparr>layer_id = gen 0, layer_name = (js ''Import '') @ fileName, color = ColorString (js ''#9ca3af''),
                       layer_type = mixed, category = kml, isVisible = True, opacity = Fin 0.6\<rparr>],
                     fst (processPlacemarks gen (gen 0) placemarks 1))
               else ([], [])))"

datatype ImportOutcome = NoFile | NoText | Imported | NoCompatibleShape | KmlError

text \<open>
  \<open>handleKmlImport\<close>: the file is its name and its text, \<open>None\<close> when no file was
  chosen; an empty text is the silent return \<open>NoText\<close>. \<open>parseXml\<close> is the browser's
  parser; \<open>None\<close> is an exception inside the \<open>try\<close> block, which the \<open>catch\<close>
  reports as \<open>KmlError\<close>. \<open>NoCompatibleShape\<close> is the alert that no polygon or line
  was found.
\<close>

definition handleKmlImport :: "(jsstring \<Rightarrow> xml option) \<Rightarrow> (jsstring \<Rightarrow> jsstring)
    \<Rightarrow> (nat \<Rightarrow> jsstring) \<Rightarrow> AppState \<Rightarrow> (jsstring \<times> jsstring) option
    \<Rightarrow> ImportOutcome \<times> AppState" where
  "handleKmlImport parseXml unicodeLower gen st file =
     (case file of None \<Rightarrow> (NoFile, st)
      | Some (fileName, text) \<Rightarrow>
          if text = [] then (NoText, st)
          else
            (case parseXml text of None \<Rightarrow> (KmlError, st)
             | Some xmlDoc \<Rightarrow>
                 (let collected = kmlCollect unicodeLower gen fileName xmlDoc;
                      newLayers = fst collected; newShapes = snd collected
                  in if 0 < length newShapes
                     then (Imported,
                           st\<lparr>layers := layers st @ newLayers,
                              shapes := shapes st @ newShapes,
                              mapCenter := (if 0 < length (points (newShapes ! 0))
                                            then Some (points (newShapes ! 0) ! 0)
                                            else mapCenter st)\<rparr>)
                     else (NoCompatibleShape, st))))"

text \<open>A sample document: one folder with one placemark, a polygon ring of three
  positions; a document with no folder and no placemark; and sample identifiers.\<close>

definition sampleDoc :: xml where
  "sampleDoc =
     Element (js ''kml'') []
       [Element (js ''Document'') []
          [Element (js ''Folder'') []
             [Element (js ''name'') [] [Text (js ''Toits'')],
              Element (js ''Placemark'') []
                [Element (js ''Polygon'') []
                   [Element (js ''outerBoundaryIs'') []
                      [Element (js ''LinearRing'') []
                         [Element (js ''coordinates'') []
                            [Text (js ''2.35,48.85,0 2.36,48.85,0 2.36,48.86,0'')]]]]]]]]"

definition emptyDoc :: xml where
  "emptyDoc = Element (js ''kml'') [] [Element (js ''Document'') [] []]"

definition sampleGen :: "nat \<Rightarrow> jsstring" where
  "sampleGen n = (js ''id-'') @ showNat n"

section \<open>The handlers as one transition function\<close>

text \<open>
  Every handler of the application that writes the state above, as an action with
  the values it receives from the user interface and from its environment (the answer
  to a dialog, the id drawn, the chosen file). The geometry library, the parser and the
  case mapping are arguments of the transition function. Cancelling a capture reaches the
  application as \<open>SelectShape None\<close>, the Delete key as \<open>DeleteShape\<close> of the
  selected shape. A button is taken as it is pressed: that the interface disables it in
  some states is not modelled, so the transitions here include those of the application.
\<close>

datatype Action =
    AddLayer jsstring LayerType jsstring jsstring
  | DeleteLayer jsstring bool
  | ToggleVisibility jsstring
  | UpdateOpacity jsstring jsnum
  | SetActiveLayer jsstring
  | AddShape Shape
  | DeleteShape jsstring bool
  | SelectShape "jsstring option"
  | ConvertShape jsstring bool jsstring
  | ShapeComplete "GeoPoint list" "jsstring option" jsstring
  | KmlImport "nat \<Rightarrow> jsstring" "(jsstring \<times> jsstring) option"
  | ToolButton ToolMode
  | UrlSubmit "GeoPoint option"

fun step :: "Turf \<Rightarrow> (jsstring \<Rightarrow> xml option) \<Rightarrow> (jsstring \<Rightarrow> jsstring) \<Rightarrow> Action \<Rightarrow> AppState
    \<Rightarrow> AppState" where
  "step turf parseXml unicodeLower (AddLayer name t col newId) st = handleAddLayer st name t col newId"
| "step turf parseXml unicodeLower (DeleteLayer i confirmed) st = handleDeleteLayer st i confirmed"
| "step turf parseXml unicodeLower (ToggleVisibility i) st = handleToggleVisibility st i"
| "step turf parseXml unicodeLower (UpdateOpacity i v) st = handleUpdateOpacity st i v"
| "step turf parseXml unicodeLower (SetActiveLayer i) st = handleSetActiveLayer st i"
| "step turf parseXml unicodeLower (AddShape shape) st = handleAddShape st shape"
| "step turf parseXml unicodeLower (DeleteShape i confirmed) st = handleDeleteShape st i confirmed"
| "step turf parseXml unicodeLower (SelectShape i) st = handleSelectShape st i"
| "step turf parseXml unicodeLower (ConvertShape i confirmed newId) st =
     snd (handleConvertShape turf st i confirmed newId)"
| "step turf parseXml unicodeLower (ShapeComplete pts prompted newId) st =
     snd (handleShapeComplete turf st pts prompted newId)"
| "step turf parseXml unicodeLower (KmlImport gen file) st = snd (handleKmlImport parseXml unicodeLower gen st file)"
| "step turf parseXml unicodeLower (ToolButton m) st = toolButton st m"
| "step turf parseXml unicodeLower (UrlSubmit matched) st = handleUrlSubmit st matched"

section \<open>Properties\<close>

text \<open>
  C8. While points are being captured, \<open>handleTryFinish\<close> with fewer than 3 points in
  polygon mode, or fewer than 2 in line mode, changes nothing: the same points stay and
  no point sequence is handed over (the function has no error result at all). With at
  least that many points it hands over the accumulated sequence and the point list is
  empty again, which is the drawing manager's idle state.
\<close>

theorem tryFinish_guard:
  "(mode = DRAW_POLYGON \<and> length pts < 3 \<or> mode = DRAW_LINE \<and> length pts < 2
      \<longrightarrow> handleTryFinish mode pts = (None, pts)) \<and>
   (mode = DRAW_POLYGON \<and> 3 \<le> length pts \<or> mode = DRAW_LINE \<and> 2 \<le> length pts
      \<longrightarrow> handleTryFinish mode pts = (Some pts, []))"
  by (auto simp: handleTryFinish_def)

theorem tryFinish_guard_witness:
  "handleTryFinish DRAW_POLYGON
      [\<lparr>lat = Fin 48.85, lng = Fin 2.35\<rparr>, \<lparr>lat = Fin 48.85, lng = Fin 2.36\<rparr>]
     = (None, [\<lparr>lat = Fin 48.85, lng = Fin 2.35\<rparr>, \<lparr>lat = Fin 48.85, lng = Fin 2.36\<rparr>]) \<and>
   handleTryFinish DRAW_LINE
      [\<lparr>lat = Fin 48.85, lng = Fin 2.35\<rparr>, \<lparr>lat = Fin 48.85, lng = Fin 2.36\<rparr>]
     = (Some [\<lparr>lat = Fin 48.85, lng = Fin 2.35\<rparr>, \<lparr>lat = Fin 48.85, lng = Fin 2.36\<rparr>], [])"
  using tryFinish_guard [of DRAW_POLYGON
      "[\<lparr>lat = Fin 48.85, lng = Fin 2.35\<rparr>, \<lparr>lat = Fin 48.85, lng = Fin 2.36\<rparr>]"]
    tryFinish_guard [of DRAW_LINE
      "[\<lparr>lat = Fin 48.85, lng = Fin 2.35\<rparr>, \<lparr>lat = Fin 48.85, lng = Fin 2.36\<rparr>]"]
  by simp

subsection \<open>Auxiliary facts\<close>





text \<open>The sample project, looked up.\<close>

lemma sample_find:
  "find (\<lambda>x. shape_id x = js ''s1'') (shapes sampleState) = Some sampleShape"
  by (simp add: sampleState_def sampleShape_def)

lemma sample_targets:
  "targetLayer sampleState =
     Some \<lparr>layer_id = js ''1'', layer_name = js ''Murs'', color = ColorString (js ''#ef4444''),
           layer_type = surface, category = measurement, isVisible = True, opacity = Fin 0.5\<rparr>"
  "targetLayer (sampleState\<lparr>activeLayerId := Some (js ''2'')\<rparr>) =
     Some \<lparr>layer_id = js ''2'', layer_name = js ''Cloture'', color = ColorString (js ''#3b82f6''),
           layer_type = length_type, category = measurement, isVisible = True, opacity = Fin 1\<rparr>"
  "targetLayer (sampleState\<lparr>activeLayerId := Some (js ''k1'')\<rparr>) =
     Some \<lparr>layer_id = js ''k1'', layer_name = js ''Dossier 1'', color = ColorString (js ''#9ca3af''),
           layer_type = mixed, category = kml, isVisible = True, opacity = Fin 0.6\<rparr>"
  "targetLayer (sampleState\<lparr>activeLayerId := None\<rparr>) = None"
  by (simp_all add: sampleState_def targetLayer_def)

subsection \<open>The layer store\<close>

text \<open>
  C6 (as amended). \<open>handleUpdateOpacity st i v\<close> stores \<open>v\<close> as it is given, without
  clamping, as the opacity of every layer whose id is \<open>i\<close>, and changes nothing else:
  the other fields of that layer, the other layers, the shapes, the active layer, the
  selection, the tool mode and the map centre are the same. (The slider that calls it
  only offers values from 0 to 1.)
\<close>

theorem setOpacity_frame:
  "shapes (handleUpdateOpacity st i v) = shapes st \<and>
   activeLayerId (handleUpdateOpacity st i v) = activeLayerId st \<and>
   selectedShapeId (handleUpdateOpacity st i v) = selectedShapeId st \<and>
   toolMode (handleUpdateOpacity st i v) = toolMode st \<and>
   mapCenter (handleUpdateOpacity st i v) = mapCenter st \<and>
   length (layers (handleUpdateOpacity st i v)) = length (layers st) \<and>
   (\<forall>k<length (layers st).
      layers (handleUpdateOpacity st i v) ! k =
        (if layer_id (layers st ! k) = i then (layers st ! k)\<lparr>opacity := v\<rparr>
         else layers st ! k))"
  by (simp add: handleUpdateOpacity_def)

theorem setOpacity_frame_witness:
  "layers (handleUpdateOpacity initialState (js ''1'') (Fin 0.3)) ! 0 =
     \<lparr>layer_id = js ''1'', layer_name = js ''Murs'', color = ColorString (js ''#ef4444''),
      layer_type = surface, category = measurement, isVisible = True, opacity = Fin 0.3\<rparr> \<and>
   shapes (handleUpdateOpacity initialState (js ''1'') (Fin 0.3)) = []"
  using setOpacity_frame [of initialState "js ''1''" "Fin 0.3"]
  by (simp add: initialState_def)

text \<open>The claim as stated fails: the value 2 is stored as 2, where the clamp of the
  specification gives 1.\<close>

theorem setOpacity_clamp_counterexample:
  "map opacity (layers (handleUpdateOpacity initialState (js ''1'') (Fin 2))) = [Fin 2] \<and>
   clamp01 (Fin 2) = Fin 1 \<and> Fin 2 \<noteq> clamp01 (Fin 2)"
  by (simp add: handleUpdateOpacity_def initialState_def clamp01_def)

subsection \<open>Conversion\<close>

text \<open>
  C4. A conversion of a shape whose target (the active layer) does not exist or is not a
  measurement layer fails with the invalid-target alert and changes nothing at all: the
  state it returns is the state it was given, with the same layers, shapes, active layer
  and selection, whatever the user would answer to the dialog.
\<close>

theorem convert_invalid_target:
  assumes "find (\<lambda>x. shape_id x = sid) (shapes st) = Some s"
    and "targetLayer st = None \<or> (\<exists>L. targetLayer st = Some L \<and> category L \<noteq> measurement)"
  shows "handleConvertShape turf st sid confirmed nid = (InvalidTarget, st)"
  using assms by (auto simp: handleConvertShape_def split: option.splits)

theorem convert_invalid_target_witness:
  "handleConvertShape probeTurf (sampleState\<lparr>activeLayerId := Some (js ''k1'')\<rparr>) (js ''s1'') True (js ''n1'')
     = (InvalidTarget, sampleState\<lparr>activeLayerId := Some (js ''k1'')\<rparr>) \<and>
   handleConvertShape probeTurf (sampleState\<lparr>activeLayerId := None\<rparr>) (js ''s1'') True (js ''n1'')
     = (InvalidTarget, sampleState\<lparr>activeLayerId := None\<rparr>)"
proof -
  have f: "find (\<lambda>x. shape_id x = js ''s1'') (shapes (sampleState\<lparr>activeLayerId := Some (js ''k1'')\<rparr>))
             = Some sampleShape"
    "find (\<lambda>x. shape_id x = js ''s1'') (shapes (sampleState\<lparr>activeLayerId := None\<rparr>))
             = Some sampleShape"
    using sample_find by simp_all
  have k: "targetLayer (sampleState\<lparr>activeLayerId := Some (js ''k1'')\<rparr>) = None \<or>
      (\<exists>L. targetLayer (sampleState\<lparr>activeLayerId := Some (js ''k1'')\<rparr>) = Some L \<and> category L \<noteq> measurement)"
    using sample_targets(3) by simp
  have n: "targetLayer (sampleState\<lparr>activeLayerId := None\<rparr>) = None \<or>
      (\<exists>L. targetLayer (sampleState\<lparr>activeLayerId := None\<rparr>) = Some L \<and> category L \<noteq> measurement)"
    using sample_targets(4) by simp
  show ?thesis
    using convert_invalid_target [OF f(1) k, of probeTurf True "js ''n1''"]
      convert_invalid_target [OF f(2) n, of probeTurf True "js ''n1''"]
    by simp
qed

text \<open>A call that names no shape returns silently and changes nothing either; the
  interface offers the conversion only for a shape it has found.\<close>

lemma convert_no_shape:
  "find (\<lambda>x. shape_id x = sid) (shapes st) = None \<Longrightarrow>
   handleConvertShape turf st sid confirmed nid = (NoShape, st)"
  by (simp add: handleConvertShape_def)




text \<open>
  C3. In a confirmed conversion the measured value of the new shape is computed for the
  coerced kind, from the positions \<open>(lng, lat)\<close> of the points of the shape in their
  order. For a polygon the ring is these positions followed by the first one; with
  fewer than 4 positions in that ring the value is 0 and the conversion completes all
  the same; otherwise it is the area the library returns for the ring. For a polyline
  the value is 0 with fewer than 2 points; otherwise it is the length the library returns
  for the positions, in kilometres, times 1000. An exception of the library leaves 0.
\<close>

theorem convert_measured_value:
  assumes "find (\<lambda>x. shape_id x = sid) (shapes st) = Some s"
    and "targetLayer st = Some L" and "category L = measurement"
  shows "fst (handleConvertShape turf st sid True nid) = Converted \<and>
    (let new = last (shapes (snd (handleConvertShape turf st sid True nid)));
         pts = points s; k = shape_type new; mv = measuredValue new in
      k = coerceType (layer_type L) (shape_type s) \<and>
      (k = polygon \<and> length pts + 1 < 4 \<longrightarrow> mv = Fin 0) \<and>
      (k = polygon \<and> 4 \<le> length pts + 1 \<longrightarrow>
         mv = (case polygon_area turf (map (\<lambda>p. (lng p, lat p)) (pts @ [hd pts])) of
                 Some a \<Rightarrow> a | None \<Rightarrow> Fin 0)) \<and>
      (k = polyline \<and> length pts < 2 \<longrightarrow> mv = Fin 0) \<and>
      (k = polyline \<and> 2 \<le> length pts \<longrightarrow>
         mv = (case line_length turf (map (\<lambda>p. (lng p, lat p)) pts) of
                 Some km \<Rightarrow> js_times km (Fin 1000) | None \<Rightarrow> Fin 0)))"
proof -
  define new where "new = convertedShape turf s L nid"
  have pos: "position = (\<lambda>p. (lng p, lat p))"
    by (rule ext) (simp add: position_def)
  have run: "handleConvertShape turf st sid True nid =
      (Converted, st\<lparr>shapes := filter (\<lambda>x. shape_id x \<noteq> sid) (shapes st) @ [new],
                      selectedShapeId := Some nid\<rparr>)"
    using assms by (simp add: handleConvertShape_def new_def)
  have k: "shape_type new = coerceType (layer_type L) (shape_type s)"
    and mv: "measuredValue new = convertMeasure turf (shape_type new) (points s)"
    by (simp_all add: new_def convertedShape_def Let_def)
  have nth0: "points s \<noteq> [] \<Longrightarrow> points s ! 0 = hd (points s)"
    by (simp add: hd_conv_nth)
  have poly_small: "shape_type new = polygon \<Longrightarrow> length (points s) + 1 < 4 \<Longrightarrow> measuredValue new = Fin 0"
    by (simp add: mv convertMeasure_def Let_def)
  have poly_big: "shape_type new = polygon \<Longrightarrow> 4 \<le> length (points s) + 1 \<Longrightarrow>
      measuredValue new = (case polygon_area turf (map (\<lambda>p. (lng p, lat p)) (points s @ [hd (points s)])) of
                 Some a \<Rightarrow> a | None \<Rightarrow> Fin 0)"
    using nth0 by (cases "points s") (simp_all add: mv convertMeasure_def pos Let_def split: option.splits)
  have line_small: "shape_type new = polyline \<Longrightarrow> length (points s) < 2 \<Longrightarrow> measuredValue new = Fin 0"
    by (simp add: mv convertMeasure_def Let_def)
  have line_big: "shape_type new = polyline \<Longrightarrow> 2 \<le> length (points s) \<Longrightarrow>
      measuredValue new = (case line_length turf (map (\<lambda>p. (lng p, lat p)) (points s)) of
                 Some km \<Rightarrow> js_times km (Fin 1000) | None \<Rightarrow> Fin 0)"
    by (simp add: mv convertMeasure_def pos Let_def split: option.splits)
  show ?thesis
    unfolding run Let_def
    using k poly_small poly_big line_small line_big by simp
qed

theorem convert_measured_value_witness:
  "measuredValue (last (shapes (snd (handleConvertShape probeTurf sampleState (js ''s1'') True (js ''n1'')))))
     = Fin 732825.31 \<and>
   measuredValue (last (shapes (snd (handleConvertShape probeTurf
       (sampleState\<lparr>activeLayerId := Some (js ''2'')\<rparr>) (js ''s1'') True (js ''n1'')))))
     = Fin 342006510 \<and>
   fst (handleConvertShape probeTurf
       (sampleState\<lparr>shapes := [sampleShape\<lparr>points := take 2 sampleTriangle\<rparr>]\<rparr>) (js ''s1'') True (js ''n1''))
     = Converted \<and>
   measuredValue (last (shapes (snd (handleConvertShape probeTurf
       (sampleState\<lparr>shapes := [sampleShape\<lparr>points := take 2 sampleTriangle\<rparr>]\<rparr>) (js ''s1'') True (js ''n1'')))))
     = Fin 0"
proof -
  define L0 where "L0 = \<lparr>layer_id = js ''1'', layer_name = js ''Murs'', color = ColorString (js ''#ef4444''),
       layer_type = surface, category = measurement, isVisible = True, opacity = Fin 0.5\<rparr>"
  define L1 where "L1 = \<lparr>layer_id = js ''2'', layer_name = js ''Cloture'', color = ColorString (js ''#3b82f6''),
       layer_type = length_type, category = measurement, isVisible = True, opacity = Fin 1\<rparr>"
  have h1: "find (\<lambda>x. shape_id x = js ''s1'') (shapes (sampleState\<lparr>activeLayerId := Some (js ''2'')\<rparr>))
       = Some sampleShape"
    using sample_find by simp
  have h1': "find (\<lambda>x. shape_id x = js ''s1'')
      (shapes (sampleState\<lparr>shapes := [sampleShape\<lparr>points := take 2 sampleTriangle\<rparr>]\<rparr>))
      = Some (sampleShape\<lparr>points := take 2 sampleTriangle\<rparr>)"
    by (simp add: sampleShape_def)
  have h2: "targetLayer sampleState = Some L0"
    "targetLayer (sampleState\<lparr>activeLayerId := Some (js ''2'')\<rparr>) = Some L1"
    using sample_targets(1,2) by (simp_all add: L0_def L1_def)
  have h2': "targetLayer (sampleState\<lparr>shapes := [sampleShape\<lparr>points := take 2 sampleTriangle\<rparr>]\<rparr>) = Some L0"
    by (simp add: sampleState_def targetLayer_def L0_def)
  have h3: "category L0 = measurement" "category L1 = measurement"
    by (simp_all add: L0_def L1_def)
  have h7: "coerceType (layer_type L0) (shape_type sampleShape) = polygon"
    "coerceType (layer_type L1) (shape_type sampleShape) = polyline"
    "length (points sampleShape) = 3"
    "coerceType (layer_type L0) (shape_type (sampleShape\<lparr>points := take 2 sampleTriangle\<rparr>)) = polygon"
    "length (points (sampleShape\<lparr>points := take 2 sampleTriangle\<rparr>)) = 2"
    by (simp_all add: L0_def L1_def sampleShape_def coerceType_def sampleTriangle_def)
  have area: "polygon_area probeTurf
      (map (\<lambda>p. (lng p, lat p)) (points sampleShape @ [hd (points sampleShape)])) = Some (Fin 732825.31)"
    by (simp add: probeTurf_def sampleShape_def sampleTriangle_def)
  have len: "line_length probeTurf (map (\<lambda>p. (lng p, lat p)) (points sampleShape)) = Some (Fin 342006.51)"
    by (simp add: probeTurf_def sampleShape_def sampleTriangle_def)
  have big: "js_times (Fin 342006.51) (Fin 1000) = Fin 342006510"
    by (simp add: js_round_def js_overflow_def js_underflow_def)
  note a = convert_measured_value [OF sample_find h2(1) h3(1), of probeTurf "js ''n1''", unfolded Let_def]
  note b = convert_measured_value [OF h1 h2(2) h3(2), of probeTurf "js ''n1''", unfolded Let_def]
  note c = convert_measured_value [OF h1' h2' h3(1), of probeTurf "js ''n1''", unfolded Let_def]
  from a h7 area have 1: "measuredValue (last (shapes (snd (handleConvertShape probeTurf sampleState (js ''s1'') True (js ''n1'')))))
     = Fin 732825.31"
    by simp
  from b h7 len big have 2: "measuredValue (last (shapes (snd (handleConvertShape probeTurf
       (sampleState\<lparr>activeLayerId := Some (js ''2'')\<rparr>) (js ''s1'') True (js ''n1''))))) = Fin 342006510"
    by simp
  from c h7 have 3: "fst (handleConvertShape probeTurf
       (sampleState\<lparr>shapes := [sampleShape\<lparr>points := take 2 sampleTriangle\<rparr>]\<rparr>) (js ''s1'') True (js ''n1''))
     = Converted"
    "measuredValue (last (shapes (snd (handleConvertShape probeTurf
       (sampleState\<lparr>shapes := [sampleShape\<lparr>points := take 2 sampleTriangle\<rparr>]\<rparr>) (js ''s1'') True (js ''n1'')))))
     = Fin 0"
    by simp_all
  from 1 2 3 show ?thesis by simp
qed

subsection \<open>Finishing a capture\<close>

text \<open>
  C5 (as amended). When a capture is finished and the prompt is answered, the value
  stored with the new shape is never NaN: it is 0 when the geometry computation throws
  or yields NaN, and the computed value otherwise, an infinity included.
\<close>

theorem complete_clamps_NaN:
  assumes "targetLayer st = Some L"
  shows "fst (handleShapeComplete turf st pts (Some name) nid) = ShapeAdded \<and>
    (let st' = snd (handleShapeComplete turf st pts (Some name) nid);
         new = last (shapes st'); mv = measuredValue new;
         ring = map position (pts @ [hd pts]); path = map position pts in
      shapes st' = shapes st @ [new] \<and> points new = pts \<and> mv \<noteq> NaN \<and>
      (layer_type L = surface \<and> pts = [] \<longrightarrow> mv = Fin 0) \<and>
      (layer_type L = surface \<and> pts \<noteq> [] \<longrightarrow>
         mv = (case polygon_area turf ring of None \<Rightarrow> Fin 0
               | Some a \<Rightarrow> if a = NaN then Fin 0 else a)) \<and>
      (layer_type L \<noteq> surface \<longrightarrow>
         mv = (case line_length turf path of None \<Rightarrow> Fin 0
               | Some km \<Rightarrow> if js_times km (Fin 1000) = NaN then Fin 0
                            else js_times km (Fin 1000))))"
proof -
  define mv where "mv = completeMeasure turf L pts"
  have nn: "mv \<noteq> NaN"
    by (simp add: mv_def completeMeasure_def Let_def isNaN_def)
  have s0: "layer_type L = surface \<Longrightarrow> pts = [] \<Longrightarrow> mv = Fin 0"
    by (simp add: mv_def completeMeasure_def Let_def isNaN_def)
  have s1: "layer_type L = surface \<Longrightarrow> pts \<noteq> [] \<Longrightarrow>
         mv = (case polygon_area turf (map position (pts @ [hd pts])) of None \<Rightarrow> Fin 0
               | Some a \<Rightarrow> if a = NaN then Fin 0 else a)"
    by (cases pts) (simp_all add: mv_def completeMeasure_def Let_def isNaN_def split: option.splits)
  have l1: "layer_type L \<noteq> surface \<Longrightarrow>
         mv = (case line_length turf (map position pts) of None \<Rightarrow> Fin 0
               | Some km \<Rightarrow> if js_times km (Fin 1000) = NaN then Fin 0
                            else js_times km (Fin 1000))"
    by (simp add: mv_def completeMeasure_def Let_def isNaN_def split: option.splits)
  have run: "handleShapeComplete turf st pts (Some name) nid =
     (ShapeAdded, st\<lparr>shapes := shapes st @
        [\<lparr>shape_id = nid, shape_name = (if name = [] then (if layer_type L = surface then js ''Surface'' else js ''Longueur'') else name),
          shape_type = (if layer_type L = surface then polygon else polyline),
          points = pts, layerId = layer_id L, measuredValue = mv\<rparr>]\<rparr>)"
    using assms by (simp add: handleShapeComplete_def handleAddShape_def Let_def mv_def)
  show ?thesis
    unfolding run Let_def using nn s0 s1 l1 by simp
qed

theorem complete_clamps_NaN_witness:
  "measuredValue (last (shapes (snd (handleShapeComplete (constTurf NaN) initialState sampleTriangle
      (Some (js ''Toit'')) (js ''n1''))))) = Fin 0"
proof -
  define L0 where "L0 = \<lparr>layer_id = js ''1'', layer_name = js ''Murs'', color = ColorString (js ''#ef4444''),
       layer_type = surface, category = measurement, isVisible = True, opacity = Fin 0.5\<rparr>"
  have h: "targetLayer initialState = Some L0"
    by (simp add: initialState_def targetLayer_def L0_def)
  have l: "layer_type L0 = surface" "sampleTriangle \<noteq> []"
    by (simp_all add: L0_def sampleTriangle_def)
  from complete_clamps_NaN [OF h, of "constTurf NaN" sampleTriangle "js ''Toit''" "js ''n1''", unfolded Let_def] l
  show ?thesis by (simp add: constTurf_def)
qed

text \<open>The claim as stated fails for an infinite result, which is stored as it is: the
  only test is \<open>isNaN\<close>.\<close>

theorem complete_infinity_counterexample:
  "map measuredValue (shapes (snd (handleShapeComplete (constTurf PosInf) initialState sampleTriangle
      (Some (js ''Toit'')) (js ''n1'')))) = [PosInf]
   \<and> \<not> isFinite PosInf \<and> PosInf \<noteq> Fin 0"
  by (simp add: handleShapeComplete_def handleAddShape_def completeMeasure_def Let_def
      targetLayer_def initialState_def constTurf_def sampleTriangle_def isNaN_def isFinite_def)

text \<open>The conversion has no test on the computed value at all: a NaN of the library is
  stored.\<close>

lemma convert_keeps_NaN:
  "map measuredValue (shapes (snd (handleConvertShape (constTurf NaN) sampleState (js ''s1'') True (js ''n1'')))) = [NaN]"
  by (simp add: handleConvertShape_def convertedShape_def convertMeasure_def coerceType_def Let_def
      targetLayer_def sampleState_def sampleShape_def sampleTriangle_def constTurf_def)

subsection \<open>Selection and the active layer\<close>

text \<open>
  C10 (as amended). \<open>handleDeleteLayer\<close> never changes the selection, confirmed or not;
  it clears the active layer exactly when the deletion is confirmed and the deleted layer
  was active. So when every shape with the selected id lies on the deleted layer, the
  selection afterwards still holds that id and no shape has it any more. A selection is
  lost only through one of these: deleting the selected shape, making an existing layer
  active, adding a layer, an explicit deselection (\<open>SelectShape None\<close>, which is also
  what cancelling a capture sends), and the two drawing-tool buttons.
\<close>

theorem deleteLayer_keeps_selection:
  "selectedShapeId (handleDeleteLayer st i c) = selectedShapeId st \<and>
   activeLayerId (handleDeleteLayer st i c) =
     (if c \<and> activeLayerId st = Some i then None else activeLayerId st) \<and>
   (c \<and> selectedShapeId st = Some x \<and> (\<forall>s\<in>set (shapes st). shape_id s = x \<longrightarrow> layerId s = i)
      \<longrightarrow> selectedShapeId (handleDeleteLayer st i c) = Some x \<and>
          x \<notin> shape_id ` set (shapes (handleDeleteLayer st i c))) \<and>
   (selectedShapeId st \<noteq> None \<and> selectedShapeId (step turf parseXml unicodeLower a st) = None
      \<longrightarrow> (\<exists>j. a = DeleteShape j True \<and> selectedShapeId st = Some j) \<or>
          (\<exists>j. a = SetActiveLayer j \<and> find (\<lambda>l. layer_id l = j) (layers st) \<noteq> None) \<or>
          (\<exists>name t col newId. a = AddLayer name t col newId) \<or>
          a = SelectShape None \<or> a = ToolButton DRAW_POLYGON \<or> a = ToolButton DRAW_LINE)"
proof -
  have d: "selectedShapeId (handleDeleteLayer st i c) = selectedShapeId st"
    "activeLayerId (handleDeleteLayer st i c) =
       (if c \<and> activeLayerId st = Some i then None else activeLayerId st)"
    by (simp_all add: handleDeleteLayer_def)
  have only: "(\<exists>j. a = DeleteShape j True \<and> selectedShapeId st = Some j) \<or>
          (\<exists>j. a = SetActiveLayer j \<and> find (\<lambda>l. layer_id l = j) (layers st) \<noteq> None) \<or>
          (\<exists>name t col newId. a = AddLayer name t col newId) \<or>
          a = SelectShape None \<or> a = ToolButton DRAW_POLYGON \<or> a = ToolButton DRAW_LINE"
    if "selectedShapeId st \<noteq> None" "selectedShapeId (step turf parseXml unicodeLower a st) = None"
  proof (cases a)
    case (ToolButton m)
    with that show ?thesis by (cases m) (auto simp: toolButton_def)
  next
    case (ConvertShape j cf nid)
    with that show ?thesis
      by (auto simp: handleConvertShape_def split: option.splits if_splits)
  next
    case (ShapeComplete pts pr nid)
    with that show ?thesis
      by (auto simp: handleShapeComplete_def handleAddShape_def Let_def split: option.splits)
  next
    case (KmlImport gen fl)
    with that show ?thesis
      by (auto simp: handleKmlImport_def Let_def split: option.splits if_splits prod.splits)
  qed (use that in \<open>auto simp: handleAddLayer_def handleDeleteLayer_def handleToggleVisibility_def
        handleUpdateOpacity_def handleSetActiveLayer_def handleAddShape_def handleDeleteShape_def
        handleSelectShape_def handleUrlSubmit_def split: option.splits if_splits\<close>)
  have third: "c \<and> selectedShapeId st = Some x \<and> (\<forall>s\<in>set (shapes st). shape_id s = x \<longrightarrow> layerId s = i)
      \<longrightarrow> selectedShapeId (handleDeleteLayer st i c) = Some x \<and>
          x \<notin> shape_id ` set (shapes (handleDeleteLayer st i c))"
    by (auto simp: handleDeleteLayer_def)
  have fourth: "selectedShapeId st \<noteq> None \<and> selectedShapeId (step turf parseXml unicodeLower a st) = None
      \<longrightarrow> (\<exists>j. a = DeleteShape j True \<and> selectedShapeId st = Some j) \<or>
          (\<exists>j. a = SetActiveLayer j \<and> find (\<lambda>l. layer_id l = j) (layers st) \<noteq> None) \<or>
          (\<exists>name t col newId. a = AddLayer name t col newId) \<or>
          a = SelectShape None \<or> a = ToolButton DRAW_POLYGON \<or> a = ToolButton DRAW_LINE"
    by (intro impI, elim conjE, rule only)
  show ?thesis by (intro conjI d third fourth)
qed

theorem deleteLayer_keeps_selection_witness:
  "selectedShapeId (handleDeleteLayer sampleState (js ''k1'') True) = Some (js ''s1'') \<and>
   js ''s1'' \<notin> shape_id ` set (shapes (handleDeleteLayer sampleState (js ''k1'') True)) \<and>
   activeLayerId (handleDeleteLayer sampleState (js ''1'') True) = None \<and>
   selectedShapeId (step (constTurf (Fin 0)) (\<lambda>t. None) (\<lambda>s. s) (DeleteLayer (js ''k1'') True) sampleState) \<noteq> None"
proof -
  have h: "selectedShapeId sampleState = Some (js ''s1'')" "activeLayerId sampleState = Some (js ''1'')"
    "\<forall>s\<in>set (shapes sampleState). shape_id s = js ''s1'' \<longrightarrow> layerId s = js ''k1''"
    by (simp_all add: sampleState_def sampleShape_def)
  note a = deleteLayer_keeps_selection [where st = sampleState and i = "js ''k1''" and c = True
      and x = "js ''s1''" and a = "DeleteLayer (js ''k1'') True" and turf = "constTurf (Fin 0)"
      and parseXml = "\<lambda>t. None" and unicodeLower = "\<lambda>s. s"]
  note b = deleteLayer_keeps_selection [where st = sampleState and i = "js ''1''" and c = True
      and x = "js ''s1''" and a = "DeleteLayer (js ''1'') True" and turf = "constTurf (Fin 0)"
      and parseXml = "\<lambda>t. None" and unicodeLower = "\<lambda>s. s"]
  from a h have 1: "selectedShapeId (handleDeleteLayer sampleState (js ''k1'') True) = Some (js ''s1'')"
    "js ''s1'' \<notin> shape_id ` set (shapes (handleDeleteLayer sampleState (js ''k1'') True))"
    by simp_all
  from b h have 2: "activeLayerId (handleDeleteLayer sampleState (js ''1'') True) = None"
    by simp
  from a h have 3: "selectedShapeId (step (constTurf (Fin 0)) (\<lambda>t. None) (\<lambda>s. s) (DeleteLayer (js ''k1'') True) sampleState) \<noteq> None"
    by auto
  from 1 2 3 show ?thesis by simp
qed

text \<open>The claim as stated names only the deletion of a shape and the activation of a
  layer: adding a layer clears the selection too.\<close>

theorem selection_cleared_by_addLayer_counterexample:
  "selectedShapeId sampleState = Some (js ''s1'') \<and>
   selectedShapeId (step (constTurf (Fin 0)) (\<lambda>t. None) (\<lambda>s. s)
      (AddLayer (js ''Toit'') surface (js ''#ef4444'') (js ''n1'')) sampleState) = None"
  by (simp add: sampleState_def handleAddLayer_def)

subsection \<open>The import\<close>





lemma kmlColorToHex_malformed_any_mapping:
  "kmlColorToHex lc (Some (js ''notacolr'')) = js ''#lrcota''"
  by (simp add: kmlColorToHex_def toLowerCase_def trim_def is_ws_def substring_def lower_ascii_def)

text \<open>Where the case mapping changes the length, the length after it decides: a value of 7
  characters that lower-cases to 8 is converted, a value of 8 that lower-cases to 9 is
  not. (U+0130 is such a character: it lower-cases to two code units.)\<close>

lemma kmlColorToHex_length_after_lowering:
  "lc (0x130 # js ''0000ff'') = [0x69, 0x307] @ js ''0000ff'' \<Longrightarrow>
   kmlColorToHex lc (Some (0x130 # js ''0000ff'')) = js ''#ff0000''"
  "lc (0x130 # js ''f0000ff'') = [0x69, 0x307] @ js ''f0000ff'' \<Longrightarrow>
   kmlColorToHex lc (Some (0x130 # js ''f0000ff'')) = js ''#9ca3af''"
  by (simp_all add: kmlColorToHex_def toLowerCase_def trim_def is_ws_def substring_def)

text \<open>Evaluation of the sample document.\<close>

lemmas parseFloat_eval = parseFloat_def unsigned_literal_def is_ws_def is_digit_def digits_val_def
  digit_val_def exponent_part_def scale10_def js_round_def js_overflow_def js_underflow_def
  js_negate_def Let_def

lemma sample_coords: "parseCoords (js ''2.35,48.85,0 2.36,48.85,0 2.36,48.86,0'') = sampleTriangle"
  by (simp add: parseCoords_def parsePairs_def parsePair_def keepPoint_def isNaN_def trim_def
      splitSpaces_def sampleTriangle_def parseFloat_eval)

lemma sample_collect: "kmlCollect lc sampleGen (js ''plan.kml'') sampleDoc =
   ([\<lparr>layer_id = js ''id-0'', layer_name = js ''Toits'', color = ColorString (js ''#ef4444''),
      layer_type = mixed, category = kml, isVisible = True, opacity = Fin 0.6\<rparr>],
    [\<lparr>shape_id = js ''id-1'', shape_name = js ''Sans nom'', shape_type = polygon,
      points = sampleTriangle, layerId = js ''id-0'', measuredValue = Fin 0\<rparr>])"
  using sample_coords
  by (simp add: kmlCollect_def sampleDoc_def docElementsByTagName_def parseStyles_def
      getElementsByTagName_def folderLayer_def firstText_def PRESET_COLORS_def sampleGen_def
      processPlacemark_def placemarkGeometry_def coordinatesOf_def sampleTriangle_def Let_def)

lemma empty_collect:
  "docElementsByTagName emptyDoc (js ''Folder'') = [] \<and>
   docElementsByTagName emptyDoc (js ''Placemark'') = []"
  by (simp add: emptyDoc_def docElementsByTagName_def)

text \<open>
  C1 (as amended). For a chosen file whose text is not empty and which the parser turns
  into a document: if the document yields no shape, the import ends with the
  no-compatible-shape alert and the state is the one before (no layer, no shape added);
  if it yields at least one shape, all collected layers and all collected shapes are
  appended together, and the active layer and the selection are unchanged. A document
  with no folder and no placemark yields no shape. A file whose text is empty is
  dropped silently: the state is the one before and no failure is reported. An
  exception of the parser is reported as a KML error and changes nothing either.
\<close>

theorem import_all_or_nothing:
  "handleKmlImport parseXml lc gen st None = (NoFile, st) \<and>
   handleKmlImport parseXml lc gen st (Some (name, [])) = (NoText, st) \<and>
   (content \<noteq> [] \<and> parseXml content = None \<longrightarrow>
      handleKmlImport parseXml lc gen st (Some (name, content)) = (KmlError, st)) \<and>
   (content \<noteq> [] \<and> parseXml content = Some doc \<longrightarrow>
      (snd (kmlCollect lc gen name doc) = [] \<longrightarrow>
         handleKmlImport parseXml lc gen st (Some (name, content)) = (NoCompatibleShape, st)) \<and>
      (snd (kmlCollect lc gen name doc) \<noteq> [] \<longrightarrow>
         fst (handleKmlImport parseXml lc gen st (Some (name, content))) = Imported \<and>
         layers (snd (handleKmlImport parseXml lc gen st (Some (name, content))))
           = layers st @ fst (kmlCollect lc gen name doc) \<and>
         shapes (snd (handleKmlImport parseXml lc gen st (Some (name, content))))
           = shapes st @ snd (kmlCollect lc gen name doc) \<and>
         activeLayerId (snd (handleKmlImport parseXml lc gen st (Some (name, content)))) = activeLayerId st \<and>
         selectedShapeId (snd (handleKmlImport parseXml lc gen st (Some (name, content)))) = selectedShapeId st) \<and>
      (docElementsByTagName doc (js ''Folder'') = [] \<and> docElementsByTagName doc (js ''Placemark'') = [] \<longrightarrow>
         handleKmlImport parseXml lc gen st (Some (name, content)) = (NoCompatibleShape, st)))"
proof -
  have none: "snd (kmlCollect lc gen name doc) = []"
    if "docElementsByTagName doc (js ''Folder'') = []" "docElementsByTagName doc (js ''Placemark'') = []"
    using that by (simp add: kmlCollect_def Let_def)
  have fail: "handleKmlImport parseXml lc gen st (Some (name, content)) = (NoCompatibleShape, st)"
    if "content \<noteq> []" "parseXml content = Some doc" "snd (kmlCollect lc gen name doc) = []"
    using that by (simp add: handleKmlImport_def Let_def)
  have ok: "handleKmlImport parseXml lc gen st (Some (name, content)) =
      (Imported, st\<lparr>layers := layers st @ fst (kmlCollect lc gen name doc),
                     shapes := shapes st @ snd (kmlCollect lc gen name doc),
                     mapCenter := (if 0 < length (points (snd (kmlCollect lc gen name doc) ! 0))
                                   then Some (points (snd (kmlCollect lc gen name doc) ! 0) ! 0)
                                   else mapCenter st)\<rparr>)"
    if "content \<noteq> []" "parseXml content = Some doc" "snd (kmlCollect lc gen name doc) \<noteq> []"
    using that by (simp add: handleKmlImport_def Let_def)
  have early: "handleKmlImport parseXml lc gen st None = (NoFile, st)"
    "handleKmlImport parseXml lc gen st (Some (name, [])) = (NoText, st)"
    by (simp_all add: handleKmlImport_def)
  have err: "handleKmlImport parseXml lc gen st (Some (name, content)) = (KmlError, st)"
    if "content \<noteq> []" "parseXml content = None"
    using that by (simp add: handleKmlImport_def)
  show ?thesis
    using none fail ok early err by simp
qed

theorem import_all_or_nothing_witness:
  "handleKmlImport (\<lambda>t. Some emptyDoc) (\<lambda>s. s) sampleGen initialState (Some (js ''plan.kml'', js ''<kml/>''))
     = (NoCompatibleShape, initialState) \<and>
   fst (handleKmlImport (\<lambda>t. Some sampleDoc) (\<lambda>s. s) sampleGen initialState (Some (js ''plan.kml'', js ''<kml/>'')))
     = Imported \<and>
   map layer_name (layers (snd (handleKmlImport (\<lambda>t. Some sampleDoc) (\<lambda>s. s) sampleGen initialState
      (Some (js ''plan.kml'', js ''<kml/>''))))) = [js ''Murs'', js ''Toits''] \<and>
   map shape_id (shapes (snd (handleKmlImport (\<lambda>t. Some sampleDoc) (\<lambda>s. s) sampleGen initialState
      (Some (js ''plan.kml'', js ''<kml/>''))))) = [js ''id-1''] \<and>
   map points (shapes (snd (handleKmlImport (\<lambda>t. Some sampleDoc) (\<lambda>s. s) sampleGen initialState
      (Some (js ''plan.kml'', js ''<kml/>''))))) = [sampleTriangle] \<and>
   handleKmlImport (\<lambda>t. None) (\<lambda>s. s) sampleGen initialState (Some (js ''plan.kml'', js ''<kml/>''))
     = (KmlError, initialState)"
proof -
  define ftext where "ftext = js ''<kml/>''"
  define nm where "nm = js ''plan.kml''"
  have t: "ftext \<noteq> []" by (simp add: ftext_def)
  have c: "kmlCollect (\<lambda>s. s) sampleGen nm sampleDoc =
   ([\<lparr>layer_id = js ''id-0'', layer_name = js ''Toits'', color = ColorString (js ''#ef4444''),
      layer_type = mixed, category = kml, isVisible = True, opacity = Fin 0.6\<rparr>],
    [\<lparr>shape_id = js ''id-1'', shape_name = js ''Sans nom'', shape_type = polygon,
      points = sampleTriangle, layerId = js ''id-0'', measuredValue = Fin 0\<rparr>])"
    using sample_collect [of "\<lambda>s. s"] by (simp add: nm_def)
  note e = import_all_or_nothing [where parseXml = "\<lambda>t. Some emptyDoc" and lc = "\<lambda>s. s"
      and gen = sampleGen and st = initialState and name = nm and content = ftext and doc = emptyDoc]
  note s = import_all_or_nothing [where parseXml = "\<lambda>t. Some sampleDoc" and lc = "\<lambda>s. s"
      and gen = sampleGen and st = initialState and name = nm and content = ftext and doc = sampleDoc]
  note x = import_all_or_nothing [where parseXml = "\<lambda>t. None" and lc = "\<lambda>s. s"
      and gen = sampleGen and st = initialState and name = nm and content = ftext]
  from e t empty_collect have a: "handleKmlImport (\<lambda>t. Some emptyDoc) (\<lambda>s. s) sampleGen initialState (Some (nm, ftext))
     = (NoCompatibleShape, initialState)"
    by simp
  from s t c have b: "fst (handleKmlImport (\<lambda>t. Some sampleDoc) (\<lambda>s. s) sampleGen initialState (Some (nm, ftext)))
     = Imported"
    "layers (snd (handleKmlImport (\<lambda>t. Some sampleDoc) (\<lambda>s. s) sampleGen initialState (Some (nm, ftext))))
       = layers initialState @ fst (kmlCollect (\<lambda>s. s) sampleGen nm sampleDoc)"
    "shapes (snd (handleKmlImport (\<lambda>t. Some sampleDoc) (\<lambda>s. s) sampleGen initialState (Some (nm, ftext))))
       = shapes initialState @ snd (kmlCollect (\<lambda>s. s) sampleGen nm sampleDoc)"
    by simp_all
  from x t have d: "handleKmlImport (\<lambda>t. None) (\<lambda>s. s) sampleGen initialState (Some (nm, ftext))
     = (KmlError, initialState)"
    by simp
  show ?thesis
    unfolding ftext_def [symmetric] nm_def [symmetric] b a d
    using c by (simp add: initialState_def)
qed

text \<open>The claim as stated fails for a file whose text is empty: it yields no shape, and
  the handler returns before anything is parsed, without the no-compatible-shape alert
  or any other failure.\<close>

theorem import_empty_text_counterexample:
  "handleKmlImport (\<lambda>t. Some emptyDoc) (\<lambda>s. s) sampleGen initialState (Some (js ''plan.kml'', []))
     = (NoText, initialState) \<and> NoText \<noteq> NoCompatibleShape"
  by (simp add: handleKmlImport_def)

text \<open>The filter of \<open>parseCoords\<close>, pair by pair.\<close>

lemma parsePair_keep: "keepPoint (parsePair p) = pairYieldsNumbers p"
  by (auto simp: keepPoint_def parsePair_def pairYieldsNumbers_def isNaN_def Let_def)

lemma parsePair_point: "pairYieldsNumbers p \<Longrightarrow> the (parsePair p) = pairPoint p"
  by (simp add: parsePair_def pairYieldsNumbers_def pairPoint_def Let_def)

lemma parsePairs_filter: "parsePairs ps = map pairPoint (filter pairYieldsNumbers ps)"
  by (induction ps) (simp_all add: parsePairs_def parsePair_keep parsePair_point)

lemma processPlacemark_None:
  "(processPlacemark pm lid nid = None) = (snd (placemarkGeometry pm) = [])"
  by (simp add: processPlacemark_def Let_def)

lemma processPlacemarks_skip:
  "snd (placemarkGeometry pm) = [] \<Longrightarrow>
   processPlacemarks gen lid (pms @ pm # qms) n = processPlacemarks gen lid (pms @ qms) n"
proof (induction pms arbitrary: n)
  case Nil
  then have "processPlacemark pm lid (gen n) = None"
    by (simp add: processPlacemark_None)
  then show ?case by simp
next
  case (Cons a pms)
  then show ?case by (simp split: option.splits)
qed

text \<open>
  C7 (as amended). \<open>parseCoords\<close> splits the trimmed string on white space and keeps, in
  order, exactly the pairs that have at least two comma-separated parts whose first two
  parts do not parse to NaN (an infinite number is kept); a dropped pair changes nothing
  for the pairs before and after it. A placemark yields a shape exactly when its point
  list is not empty, and a placemark that yields none changes nothing for the placemarks
  before and after it.
\<close>

theorem parseCoords_tolerant:
  "parseCoords s = map pairPoint (filter pairYieldsNumbers (splitSpaces (trim s))) \<and>
   (\<not> pairYieldsNumbers p \<longrightarrow> parsePairs (ps @ p # qs) = parsePairs ps @ parsePairs qs) \<and>
   (pairYieldsNumbers p \<longrightarrow> parsePairs (ps @ p # qs) = parsePairs ps @ pairPoint p # parsePairs qs) \<and>
   (snd (placemarkGeometry pm) \<noteq> [] \<longrightarrow> processPlacemark pm lid nid \<noteq> None) \<and>
   (snd (placemarkGeometry pm) = [] \<longrightarrow>
      processPlacemark pm lid nid = None \<and>
      processPlacemarks gen lid (pms @ pm # qms) n = processPlacemarks gen lid (pms @ qms) n)"
  using processPlacemarks_skip [of pm gen lid pms qms n]
  by (simp add: parseCoords_def parsePairs_filter processPlacemark_None)

theorem parseCoords_tolerant_witness:
  "parseCoords (js ''1,2 x,3 4 5,6abc,7'') = [\<lparr>lat = Fin 2, lng = Fin 1\<rparr>, \<lparr>lat = Fin 6, lng = Fin 5\<rparr>] \<and>
   parseCoords (js ''1,2'' @ [0xA0, 0x3000] @ js ''3,4'' @ [0x2028])
     = [\<lparr>lat = Fin 2, lng = Fin 1\<rparr>, \<lparr>lat = Fin 4, lng = Fin 3\<rparr>] \<and>
   parsePairs ([js ''1,2''] @ js ''x,3'' # [js ''5,6'']) = parsePairs [js ''1,2''] @ parsePairs [js ''5,6''] \<and>
   processPlacemark (Element (js ''Placemark'') [] [Element (js ''Point'') [] []]) (js ''id-0'') (js ''id-1'') = None"
proof -
  define s1 where "s1 = js ''1,2 x,3 4 5,6abc,7''"
  define s2 where "s2 = js ''1,2'' @ [0xA0, 0x3000] @ js ''3,4'' @ [0x2028]"
  define pm where "pm = Element (js ''Placemark'') [] [Element (js ''Point'') [] []]"
  have sp: "splitSpaces (trim s1) = [js ''1,2'', js ''x,3'', js ''4'', js ''5,6abc,7'']"
    "splitSpaces (trim s2) = [js ''1,2'', js ''3,4'']"
    by (simp_all add: s1_def s2_def splitSpaces_def trim_def is_ws_def)
  have y: "pairYieldsNumbers (js ''1,2'')" "\<not> pairYieldsNumbers (js ''x,3'')" "\<not> pairYieldsNumbers (js ''4'')"
    "pairYieldsNumbers (js ''5,6abc,7'')" "pairYieldsNumbers (js ''3,4'')"
    by (simp_all add: pairYieldsNumbers_def parseFloat_eval)
  have pt: "pairPoint (js ''1,2'') = \<lparr>lat = Fin 2, lng = Fin 1\<rparr>"
    "pairPoint (js ''5,6abc,7'') = \<lparr>lat = Fin 6, lng = Fin 5\<rparr>"
    "pairPoint (js ''3,4'') = \<lparr>lat = Fin 4, lng = Fin 3\<rparr>"
    by (simp_all add: pairPoint_def parseFloat_eval)
  have g: "snd (placemarkGeometry pm) = []"
    by (simp add: pm_def placemarkGeometry_def getElementsByTagName_def)
  note t = parseCoords_tolerant [of s1 "js ''x,3''" "[js ''1,2'']" "[js ''5,6'']"
      pm "js ''id-0''" "js ''id-1''" sampleGen "[]" "[]" 0]
  note u = parseCoords_tolerant [of s2 "js ''x,3''" "[js ''1,2'']" "[js ''5,6'']"
      pm "js ''id-0''" "js ''id-1''" sampleGen "[]" "[]" 0]
  from t have "parseCoords s1 = map pairPoint (filter pairYieldsNumbers (splitSpaces (trim s1)))"
    by blast
  with sp(1) y pt have 1: "parseCoords s1 = [\<lparr>lat = Fin 2, lng = Fin 1\<rparr>, \<lparr>lat = Fin 6, lng = Fin 5\<rparr>]"
    by simp
  from u have "parseCoords s2 = map pairPoint (filter pairYieldsNumbers (splitSpaces (trim s2)))"
    by blast
  with sp(2) y pt have 2: "parseCoords s2 = [\<lparr>lat = Fin 2, lng = Fin 1\<rparr>, \<lparr>lat = Fin 4, lng = Fin 3\<rparr>]"
    by simp
  from t y(2) have 3: "parsePairs ([js ''1,2''] @ js ''x,3'' # [js ''5,6'']) = parsePairs [js ''1,2''] @ parsePairs [js ''5,6'']"
    by blast
  from t g have 4: "processPlacemark pm (js ''id-0'') (js ''id-1'') = None"
    by blast
  from 1 2 3 4 show ?thesis
    unfolding s1_def s2_def pm_def by blast
qed

text \<open>The claim as stated fails for a pair with an infinite number, which is not NaN and is
  kept.\<close>

theorem parseCoords_infinite_counterexample:
  "parseCoords (js ''Infinity,48.85'') = [\<lparr>lat = Fin 48.85, lng = PosInf\<rparr>] \<and> \<not> isFinite PosInf"
  by (simp add: parseCoords_def parsePairs_def parsePair_def keepPoint_def isNaN_def isFinite_def
      trim_def splitSpaces_def parseFloat_eval)

text \<open>The style look-up: a style reference that names a member of \<open>Object.prototype\<close>
  makes that member the colour of the layer.\<close>

lemma folderLayer_prototype_member:
  "color (folderLayer Map.empty
      (Element (js ''Folder'') []
         [Element (js ''Placemark'') [] [Element (js ''styleUrl'') [] [Text (js ''constructor'')]]])
      0 (js ''id-0'')) = PrototypeMember (js ''constructor'')"
  by (simp add: folderLayer_def firstText_def getElementsByTagName_def styleLookup_def
      objectPrototypeKeys_def PRESET_COLORS_def Let_def)

text \<open>Underflow: a literal below the smallest double parses to zero.\<close>

lemma parseFloat_underflow: "parseFloat (js ''1e-400'') = Fin 0"
  by (simp add: parseFloat_eval)

end
